theory Spec2Isabelle
  imports Complex_Main
begin

section \<open>Exceptions\<close>

text \<open>
  Every way in which \<^verbatim>\<open>train_filter\<close> can stop early is a value. \<open>AssertionError\<close> is raised
  only by the \<^verbatim>\<open>assert\<close> statements of \<^verbatim>\<open>_train_filter.py\<close> itself, \<open>ValueError\<close> by the tuple
  unpacking of line 73, \<open>ZeroDivisionError\<close> by \<^verbatim>\<open>%\<close> and \<^verbatim>\<open>/=\<close>, \<open>IndexError\<close> and
  \<open>RuntimeError\<close> by the tensor views of torch. An exception that leaves one of the objects
  handed to \<^verbatim>\<open>train_filter\<close> (the filter model, the training helper, the loss function, the
  fannypack utilities) is \<open>Raised name\<close>, whatever its Python class.
\<close>

datatype error =
    AssertionError
  | IndexError
  | ValueError
  | RuntimeError
  | ZeroDivisionError
  | Raised string

section \<open>Tensors as strided views\<close>

text \<open>
  A torch tensor is a view of a flat storage: an offset into the storage and, for every
  dimension, its size and its stride. \<^verbatim>\<open>torch.transpose\<close>, integer indexing, slicing and
  \<^verbatim>\<open>expand\<close> all return views: they change the offset, sizes and strides and leave the storage
  alone. The elements are of any type \<open>'a\<close>; nothing in this file computes with them.
\<close>

record 'a tensor =
  storage :: "'a list"
  storage_offset :: nat
  dims :: "(nat \<times> nat) list"

text \<open>\<^verbatim>\<open>tensor.shape\<close>.\<close>

definition sizes :: "'a tensor \<Rightarrow> nat list" where
  "sizes t = map fst (dims t)"

text \<open>
  The position in the storage of the element at a full index, relative to the offset of the
  view; \<open>None\<close> when the index has the wrong length or leaves a dimension.
\<close>

fun offset_of :: "(nat \<times> nat) list \<Rightarrow> nat list \<Rightarrow> nat option" where
  "offset_of [] [] = Some 0"
| "offset_of ((n, stride) # ds) (i # idx) =
     (if i < n then map_option (\<lambda>k. i * stride + k) (offset_of ds idx) else None)"
| "offset_of _ _ = None"

text \<open>\<^verbatim>\<open>tensor[i0, i1, ...]\<close> with one non-negative integer for every dimension.\<close>

definition element :: "'a tensor \<Rightarrow> nat list \<Rightarrow> error + 'a" where
  "element t idx =
     (case offset_of (dims t) idx of
        None \<Rightarrow> Inl IndexError
      | Some k \<Rightarrow>
          if storage_offset t + k < length (storage t)
          then Inr (storage t ! (storage_offset t + k))
          else Inl IndexError)"

text \<open>
  \<^verbatim>\<open>_swap_batch_sequence_axes\<close> (lines 15-17): \<^verbatim>\<open>torch.transpose(tensor, 0, 1)\<close> exchanges the size
  and the stride of dimensions 0 and 1, and raises IndexError (dimension out of range) on a
  tensor with fewer than two dimensions.
\<close>

definition swap_batch_sequence_axes :: "'a tensor \<Rightarrow> error + 'a tensor" where
  "swap_batch_sequence_axes t =
     (case dims t of
        d0 # d1 # ds \<Rightarrow> Inr (t\<lparr>dims := d1 # d0 # ds\<rparr>)
      | _ \<Rightarrow> Inl IndexError)"

text \<open>\<^verbatim>\<open>tensor[i]\<close> for \<open>i \<ge> 0\<close>: the view at index \<open>i\<close> of dimension 0.\<close>

definition select :: "'a tensor \<Rightarrow> nat \<Rightarrow> error + 'a tensor" where
  "select t i =
     (case dims t of
        [] \<Rightarrow> Inl IndexError
      | (n, stride) # ds \<Rightarrow>
          if i < n
          then Inr (t\<lparr>storage_offset := storage_offset t + i * stride, dims := ds\<rparr>)
          else Inl IndexError)"

text \<open>
  \<^verbatim>\<open>tensor[k:]\<close> for \<open>k \<ge> 0\<close>: the start is clamped to the size of dimension 0, as Python
  slices are; a tensor without dimensions cannot be sliced.
\<close>

definition slice_from :: "'a tensor \<Rightarrow> nat \<Rightarrow> error + 'a tensor" where
  "slice_from t k =
     (case dims t of
        [] \<Rightarrow> Inl IndexError
      | (n, stride) # ds \<Rightarrow>
          Inr (t\<lparr>storage_offset := storage_offset t + min k n * stride,
                 dims := (n - min k n, stride) # ds\<rparr>))"

text \<open>
  \<^verbatim>\<open>tensor[None, :, :]\<close>: a new leading dimension of size 1 in front of a tensor with at least
  two dimensions; with fewer, the two slices are too many indices.
\<close>

definition unsqueeze_front :: "'a tensor \<Rightarrow> error + 'a tensor" where
  "unsqueeze_front t =
     (case dims t of
        (n, stride) # d1 # ds \<Rightarrow> Inr (t\<lparr>dims := (1, n * stride) # (n, stride) # d1 # ds\<rparr>)
      | _ \<Rightarrow> Inl IndexError)"

text \<open>
  \<^verbatim>\<open>tensor.expand(shape)\<close>, read from the last dimension backwards: a dimension keeps its size
  and stride when the sizes agree, a dimension of size 1 is repeated with stride 0, new
  leading dimensions have stride 0, and anything else is a RuntimeError.
\<close>

fun expand_rev :: "(nat \<times> nat) list \<Rightarrow> nat list \<Rightarrow> error + (nat \<times> nat) list" where
  "expand_rev [] [] = Inr []"
| "expand_rev [] (m # ms) =
     (case expand_rev [] ms of Inl e \<Rightarrow> Inl e | Inr ds \<Rightarrow> Inr ((m, 0) # ds))"
| "expand_rev (d # ds) [] = Inl RuntimeError"
| "expand_rev ((n, stride) # ds) (m # ms) =
     (case expand_rev ds ms of
        Inl e \<Rightarrow> Inl e
      | Inr ds' \<Rightarrow>
          if n = m then Inr ((n, stride) # ds')
          else if n = 1 then Inr ((m, 0) # ds')
          else Inl RuntimeError)"

definition expand :: "'a tensor \<Rightarrow> nat list \<Rightarrow> error + 'a tensor" where
  "expand t shape =
     (case expand_rev (rev (dims t)) (rev shape) of
        Inl e \<Rightarrow> Inl e
      | Inr ds \<Rightarrow> Inr (t\<lparr>dims := rev ds\<rparr>))"

section \<open>The objects handed to train_filter\<close>

text \<open>
  \<^verbatim>\<open>torchfilter.types.TrajectoryTorch\<close>: a batch of the dataloader. The states are a tensor of
  shape \<open>(N, T, state_dim)\<close>; observations and controls are whatever
  \<^verbatim>\<open>fannypack.utils.SliceWrapper\<close> wraps (a tensor, or a dictionary of tensors), of type \<open>'d\<close>.
\<close>

record ('a, 'd) trajectory =
  states :: "'a tensor"
  observations :: 'd
  controls :: 'd

text \<open>
  The calls that \<^verbatim>\<open>train_filter\<close> makes on the filter model, the training helper, the loss
  function, the sampler of torch and \<^verbatim>\<open>print\<close>, with their arguments. The list of the calls
  made so far, oldest first, is all the state there is: what a call returns may depend on
  every call before it (the parameters that \<^verbatim>\<open>minimize\<close> has updated, the beliefs that were
  initialised, the random generator).
\<close>

datatype ('a, 'd) call =
    VirtualSensorInitializeBeliefs 'd
  | Sample "'a tensor" "'a tensor"
  | InitializeBeliefs "'a tensor" "'a tensor"
  | ForwardLoop 'd 'd
  | LossFunction "'a tensor" "'a tensor"
  | Minimize "'a tensor" string
  | LogScalar string string "'a tensor"
  | Print real

text \<open>
  \<^verbatim>\<open>torchfilter.base.Filter\<close>. \<open>is_virtual_sensor_ekf\<close> is
  \<^verbatim>\<open>isinstance(filter_model, torchfilter.filters.VirtualSensorExtendedKalmanFilter)\<close>. A method
  returns \<open>Inl name\<close> when it raises.
\<close>

record ('a, 'd) filter_model =
  state_dim :: nat
  training :: bool
  is_virtual_sensor_ekf :: bool
  virtual_sensor_initialize_beliefs :: "('a, 'd) call list \<Rightarrow> 'd \<Rightarrow> string + unit"
  initialize_beliefs :: "('a, 'd) call list \<Rightarrow> 'a tensor \<Rightarrow> 'a tensor \<Rightarrow> string + unit"
  forward_loop :: "('a, 'd) call list \<Rightarrow> 'd \<Rightarrow> 'd \<Rightarrow> string + 'a tensor"

text \<open>
  \<^verbatim>\<open>fannypack.utils.Buddy\<close>, the training helper. \<open>log_scalar\<close> takes the name of the enclosing
  \<^verbatim>\<open>log_scope\<close> first.
\<close>

record ('a, 'd) buddy =
  device :: string
  minimize :: "('a, 'd) call list \<Rightarrow> 'a tensor \<Rightarrow> string \<Rightarrow> string + unit"
  log_scalar :: "('a, 'd) call list \<Rightarrow> string \<Rightarrow> string \<Rightarrow> 'a tensor \<Rightarrow> string + unit"

text \<open>
  \<^verbatim>\<open>torch.utils.data.DataLoader\<close>: the batches it yields in one pass, so that
  \<^verbatim>\<open>len(dataloader)\<close> is their number; \<open>batch_size\<close> is None when the loader was built from
  a batch sampler; \<open>is_subsequence_dataset\<close> is
  \<^verbatim>\<open>isinstance(dataloader.dataset, torchfilter.data.SubsequenceDataset)\<close>. \<^verbatim>\<open>tqdm\<close> only draws
  a progress bar around the iteration and is left out.
\<close>

record ('a, 'd) dataloader =
  is_subsequence_dataset :: bool
  batch_size :: "nat option"
  batches :: "('a, 'd) trajectory list"

text \<open>The two subscripts that \<^verbatim>\<open>train_filter\<close> applies to a SliceWrapper: \<^verbatim>\<open>[0]\<close> and \<^verbatim>\<open>[1:]\<close>.\<close>

datatype index = At nat | From nat

text \<open>
  The functions of fannypack and \<^verbatim>\<open>torch.distributions\<close> that \<^verbatim>\<open>train_filter\<close> calls. Their code
  is not part of the repository, so they are parameters: \<open>to_device\<close> and \<open>to_numpy\<close> of
  \<^verbatim>\<open>fannypack.utils\<close>, \<open>map\<close>, \<open>shape\<close> and subscripting of \<^verbatim>\<open>fannypack.utils.SliceWrapper\<close>,
  and \<open>sample\<close> for \<^verbatim>\<open>torch.distributions.MultivariateNormal(loc, covariance_matrix).sample()\<close>.
  The loss is a scalar tensor (as with the default \<^verbatim>\<open>F.mse_loss\<close>) and \<open>to_numpy\<close> gives its
  value, a real number here: rounding is not modelled.
\<close>

record ('a, 'd) library =
  to_device :: "('a, 'd) trajectory \<Rightarrow> string \<Rightarrow> string + ('a, 'd) trajectory"
  to_numpy :: "'a tensor \<Rightarrow> string + real"
  slice_wrapper_map :: "('a tensor \<Rightarrow> error + 'a tensor) \<Rightarrow> 'd \<Rightarrow> string + 'd"
  slice_wrapper_shape :: "'d \<Rightarrow> string + nat list"
  slice_wrapper_getitem :: "'d \<Rightarrow> index \<Rightarrow> string + 'd"
  sample :: "('a, 'd) call list \<Rightarrow> 'a tensor \<Rightarrow> 'a tensor \<Rightarrow> string + 'a tensor"

section \<open>Statements that may raise\<close>

text \<open>
  A statement takes the calls made so far and returns them, extended by its own calls,
  together with its value or the exception it raised.
\<close>

type_synonym ('a, 'd, 'x) action = "('a, 'd) call list \<Rightarrow> ('a, 'd) call list \<times> (error + 'x)"

definition return :: "'x \<Rightarrow> ('a, 'd, 'x) action" where
  "return x = (\<lambda>h. (h, Inr x))"

definition raise :: "error \<Rightarrow> ('a, 'd, 'x) action" where
  "raise e = (\<lambda>h. (h, Inl e))"

text \<open>Sequencing: an exception of the first statement skips the rest.\<close>

definition andthen :: "('a, 'd, 'x) action \<Rightarrow> ('x \<Rightarrow> ('a, 'd, 'y) action) \<Rightarrow> ('a, 'd, 'y) action" where
  "andthen m f = (\<lambda>h. case m h of (h', Inl e) \<Rightarrow> (h', Inl e) | (h', Inr x) \<Rightarrow> f x h')"

text \<open>A tensor view of torch, which raises an exception of its own or returns.\<close>

definition torch :: "error + 'x \<Rightarrow> ('a, 'd, 'x) action" where
  "torch r = (\<lambda>h. (h, r))"

text \<open>A function of the library record.\<close>

definition library_call :: "string + 'x \<Rightarrow> ('a, 'd, 'x) action" where
  "library_call r = (\<lambda>h. (h, case r of Inl name \<Rightarrow> Inl (Raised name) | Inr x \<Rightarrow> Inr x))"

text \<open>A call that is recorded; its response is a function of the calls before it.\<close>

definition external :: "('a, 'd) call \<Rightarrow> (('a, 'd) call list \<Rightarrow> string + 'x) \<Rightarrow> ('a, 'd, 'x) action" where
  "external c respond =
     (\<lambda>h. (h @ [c], case respond h of Inl name \<Rightarrow> Inl (Raised name) | Inr x \<Rightarrow> Inr x))"

text \<open>\<^verbatim>\<open>assert cond\<close>.\<close>

definition py_assert :: "bool \<Rightarrow> ('a, 'd, unit) action" where
  "py_assert cond = (if cond then return () else raise AssertionError)"

text \<open>\<^verbatim>\<open>T, N, state_dim = shape\<close>: ValueError unless the shape has exactly three entries.\<close>

definition unpack3 :: "nat list \<Rightarrow> ('a, 'd, nat \<times> nat \<times> nat) action" where
  "unpack3 shape = (case shape of [a, b, c] \<Rightarrow> return (a, b, c) | _ \<Rightarrow> raise ValueError)"

section \<open>train_filter\<close>

text \<open>
  Lines 58-77 of the loop body: move the batch to the device, swap the batch and sequence
  axes of states, observations and controls, and check the shapes. The value is the swapped
  data with \<open>T\<close>, \<open>N\<close> and \<open>state_dim\<close>.
\<close>

definition shape_checks ::
  "('a, 'd) library \<Rightarrow> ('a, 'd) buddy \<Rightarrow> ('a, 'd) filter_model \<Rightarrow> ('a, 'd) dataloader \<Rightarrow>
   nat \<Rightarrow> ('a, 'd) trajectory \<Rightarrow>
   ('a, 'd, 'a tensor \<times> 'd \<times> 'd \<times> nat \<times> nat \<times> nat) action" where
  "shape_checks lib buddy filter_model dataloader batch_idx batch_data =
     andthen (library_call (to_device lib batch_data (device buddy))) (\<lambda>batch_gpu.
     andthen (torch (swap_batch_sequence_axes (states batch_gpu))) (\<lambda>states_labels.
     andthen (library_call (slice_wrapper_map lib swap_batch_sequence_axes
                (observations batch_gpu))) (\<lambda>obs.
     andthen (library_call (slice_wrapper_map lib swap_batch_sequence_axes
                (controls batch_gpu))) (\<lambda>ctrl.
     andthen (unpack3 (sizes states_labels)) (\<lambda>(T, N, sd).
     andthen (py_assert (sd = state_dim filter_model)) (\<lambda>_.
     andthen (library_call (slice_wrapper_shape lib obs)) (\<lambda>obs_shape.
     andthen (py_assert (take 2 obs_shape = [T, N])) (\<lambda>_.
     andthen (library_call (slice_wrapper_shape lib ctrl)) (\<lambda>ctrl_shape.
     andthen (py_assert (take 2 ctrl_shape = [T, N])) (\<lambda>_.
     andthen (py_assert (batch_idx \<noteq> 0 \<or> Some N = batch_size dataloader)) (\<lambda>_.
     return (states_labels, obs, ctrl, T, N, sd))))))))))))"

text \<open>
  Lines 79-102: populate the initial belief of the filter, from the virtual sensor or from
  \<open>initial_covariance\<close>.
\<close>

definition populate_initial_belief ::
  "('a, 'd) library \<Rightarrow> ('a, 'd) filter_model \<Rightarrow> 'a tensor \<Rightarrow> bool \<Rightarrow>
   'a tensor \<Rightarrow> 'd \<Rightarrow> nat \<Rightarrow> nat \<Rightarrow> ('a, 'd, unit) action" where
  "populate_initial_belief lib filter_model initial_covariance measurement_initialize
       states_labels obs N sd =
     (if measurement_initialize then
        andthen (py_assert (is_virtual_sensor_ekf filter_model)) (\<lambda>_.
        andthen (library_call (slice_wrapper_getitem lib obs (At 0))) (\<lambda>obs0.
        external (VirtualSensorInitializeBeliefs obs0)
          (\<lambda>h. virtual_sensor_initialize_beliefs filter_model h obs0)))
      else
        andthen (torch (unsqueeze_front initial_covariance)) (\<lambda>cov1.
        andthen (torch (expand cov1 [N, sd, sd])) (\<lambda>initial_states_covariance.
        andthen (torch (select states_labels 0)) (\<lambda>start.
        andthen (external (Sample start initial_states_covariance)
                  (\<lambda>h. sample lib h start initial_states_covariance)) (\<lambda>initial_states.
        external (InitializeBeliefs initial_states initial_states_covariance)
          (\<lambda>h. initialize_beliefs filter_model h initial_states initial_states_covariance))))))"

text \<open>
  Lines 104-119: the forward pass from the first state, the loss and its minimisation, and
  the logging. The value is the updated \<open>epoch_loss\<close>. \<^verbatim>\<open>batch_idx % log_interval\<close> raises
  ZeroDivisionError for \<open>log_interval = 0\<close>; otherwise Python's \<^verbatim>\<open>%\<close> on integers is \<open>mod\<close>.
\<close>

definition forward_minimize_log ::
  "('a, 'd) library \<Rightarrow> ('a, 'd) buddy \<Rightarrow> ('a, 'd) filter_model \<Rightarrow>
   (('a, 'd) call list \<Rightarrow> 'a tensor \<Rightarrow> 'a tensor \<Rightarrow> string + 'a tensor) \<Rightarrow>
   int \<Rightarrow> string \<Rightarrow> nat \<Rightarrow> real \<Rightarrow>
   'a tensor \<Rightarrow> 'd \<Rightarrow> 'd \<Rightarrow> nat \<Rightarrow> nat \<Rightarrow> nat \<Rightarrow> ('a, 'd, real) action" where
  "forward_minimize_log lib buddy filter_model loss_function log_interval optimizer_name
       batch_idx epoch_loss states_labels obs ctrl T N sd =
     andthen (library_call (slice_wrapper_getitem lib obs (From 1))) (\<lambda>obs1.
     andthen (library_call (slice_wrapper_getitem lib ctrl (From 1))) (\<lambda>ctrl1.
     andthen (external (ForwardLoop obs1 ctrl1)
                (\<lambda>h. forward_loop filter_model h obs1 ctrl1)) (\<lambda>state_predictions.
     andthen (py_assert (map int (sizes state_predictions) = [int T - 1, int N, int sd])) (\<lambda>_.
     andthen (torch (slice_from states_labels 1)) (\<lambda>labels1.
     andthen (external (LossFunction state_predictions labels1)
                (\<lambda>h. loss_function h state_predictions labels1)) (\<lambda>loss.
     andthen (external (Minimize loss optimizer_name)
                (\<lambda>h. minimize buddy h loss optimizer_name)) (\<lambda>_.
     andthen (library_call (to_numpy lib loss)) (\<lambda>loss_value.
     andthen (if log_interval = 0 then raise ZeroDivisionError
              else return (int batch_idx mod log_interval = 0)) (\<lambda>log_now.
     andthen (if log_now
              then external (LogScalar ''train_filter_recurrent'' ''Training loss'' loss)
                     (\<lambda>h. log_scalar buddy h ''train_filter_recurrent'' ''Training loss'' loss)
              else return ()) (\<lambda>_.
     return (epoch_loss + loss_value)))))))))))"

text \<open>
  The body of the loop (lines 58-119) for the batch \<open>batch_data\<close> at index \<open>batch_idx\<close>: the
  three parts above, one after the other.
\<close>

definition train_batch ::
  "('a, 'd) library \<Rightarrow> ('a, 'd) buddy \<Rightarrow> ('a, 'd) filter_model \<Rightarrow> ('a, 'd) dataloader \<Rightarrow>
   'a tensor \<Rightarrow> (('a, 'd) call list \<Rightarrow> 'a tensor \<Rightarrow> 'a tensor \<Rightarrow> string + 'a tensor) \<Rightarrow>
   int \<Rightarrow> bool \<Rightarrow> string \<Rightarrow> nat \<Rightarrow> ('a, 'd) trajectory \<Rightarrow> real \<Rightarrow> ('a, 'd, real) action" where
  "train_batch lib buddy filter_model dataloader initial_covariance loss_function
       log_interval measurement_initialize optimizer_name batch_idx batch_data epoch_loss =
     andthen (shape_checks lib buddy filter_model dataloader batch_idx batch_data)
       (\<lambda>(states_labels, obs, ctrl, T, N, sd).
     andthen (populate_initial_belief lib filter_model initial_covariance
                measurement_initialize states_labels obs N sd) (\<lambda>_.
     forward_minimize_log lib buddy filter_model loss_function log_interval optimizer_name
       batch_idx epoch_loss states_labels obs ctrl T N sd))"

text \<open>
  \<^verbatim>\<open>for batch_idx, batch_data in enumerate(dataloader)\<close>, from index \<open>batch_idx\<close> on: the body
  runs on every batch in turn and the first exception ends the loop.
\<close>

fun epoch_loop ::
  "(nat \<Rightarrow> ('a, 'd) trajectory \<Rightarrow> real \<Rightarrow> ('a, 'd, real) action) \<Rightarrow>
   nat \<Rightarrow> ('a, 'd) trajectory list \<Rightarrow> real \<Rightarrow> ('a, 'd, real) action" where
  "epoch_loop body batch_idx [] epoch_loss h = (h, Inr epoch_loss)"
| "epoch_loop body batch_idx (batch_data # rest) epoch_loss h =
     (case body batch_idx batch_data epoch_loss h of
        (h', Inl e) \<Rightarrow> (h', Inl e)
      | (h', Inr epoch_loss') \<Rightarrow> epoch_loop body (Suc batch_idx) rest epoch_loss' h')"

text \<open>
  \<^verbatim>\<open>train_filter\<close> (lines 20-123). \<^verbatim>\<open>epoch_loss /= len(dataloader)\<close> divides the Python float
  \<open>0.0\<close> by the integer \<open>0\<close> when the loader has no batch, which raises ZeroDivisionError.
\<close>

definition train_filter ::
  "('a, 'd) library \<Rightarrow> ('a, 'd) buddy \<Rightarrow> ('a, 'd) filter_model \<Rightarrow> ('a, 'd) dataloader \<Rightarrow>
   'a tensor \<Rightarrow> (('a, 'd) call list \<Rightarrow> 'a tensor \<Rightarrow> 'a tensor \<Rightarrow> string + 'a tensor) \<Rightarrow>
   int \<Rightarrow> bool \<Rightarrow> string \<Rightarrow> ('a, 'd, unit) action" where
  "train_filter lib buddy filter_model dataloader initial_covariance loss_function
       log_interval measurement_initialize optimizer_name =
     andthen (py_assert (is_subsequence_dataset dataloader)) (\<lambda>_.
     andthen (py_assert (sizes initial_covariance
                = [state_dim filter_model, state_dim filter_model])) (\<lambda>_.
     andthen (py_assert (training filter_model)) (\<lambda>_.
     andthen (epoch_loop
                (train_batch lib buddy filter_model dataloader initial_covariance loss_function
                   log_interval measurement_initialize optimizer_name)
                0 (batches dataloader) 0) (\<lambda>epoch_loss.
     andthen (if length (batches dataloader) = 0 then raise ZeroDivisionError
              else return (epoch_loss / real (length (batches dataloader)))) (\<lambda>epoch_loss.
     external (Print epoch_loss) (\<lambda>h. Inr ()))))))"

section \<open>Reading the record of calls\<close>

text \<open>
  The calls made by each minibatch of \<open>epoch_loop\<close>, one list per minibatch that was started:
  the same run, cut where the body returns.
\<close>

fun batch_traces ::
  "(nat \<Rightarrow> ('a, 'd) trajectory \<Rightarrow> real \<Rightarrow> ('a, 'd, real) action) \<Rightarrow>
   nat \<Rightarrow> ('a, 'd) trajectory list \<Rightarrow> real \<Rightarrow> ('a, 'd) call list \<Rightarrow> ('a, 'd) call list list" where
  "batch_traces body batch_idx [] epoch_loss h = []"
| "batch_traces body batch_idx (batch_data # rest) epoch_loss h =
     (case body batch_idx batch_data epoch_loss h of
        (h', Inl e) \<Rightarrow> [drop (length h) h']
      | (h', Inr epoch_loss') \<Rightarrow>
          drop (length h) h' # batch_traces body (Suc batch_idx) rest epoch_loss' h')"

text \<open>The losses handed to \<^verbatim>\<open>buddy.minimize\<close>, in the order of the calls.\<close>

fun minimized :: "('a, 'd) call list \<Rightarrow> 'a tensor list" where
  "minimized [] = []"
| "minimized (Minimize loss name # cs) = loss # minimized cs"
| "minimized (c # cs) = minimized cs"

text \<open>The losses handed to \<^verbatim>\<open>buddy.log_scalar\<close>.\<close>

fun logged :: "('a, 'd) call list \<Rightarrow> 'a tensor list" where
  "logged [] = []"
| "logged (LogScalar scope name loss # cs) = loss # logged cs"
| "logged (c # cs) = logged cs"

text \<open>The calls that initialise the belief of the filter.\<close>

fun initializations :: "('a, 'd) call list \<Rightarrow> ('a, 'd) call list" where
  "initializations [] = []"
| "initializations (VirtualSensorInitializeBeliefs obs0 # cs) =
     VirtualSensorInitializeBeliefs obs0 # initializations cs"
| "initializations (Sample start cov # cs) = Sample start cov # initializations cs"
| "initializations (InitializeBeliefs mean cov # cs) =
     InitializeBeliefs mean cov # initializations cs"
| "initializations (c # cs) = initializations cs"

text \<open>The values handed to \<^verbatim>\<open>print\<close>.\<close>

fun printed :: "('a, 'd) call list \<Rightarrow> real list" where
  "printed [] = []"
| "printed (Print v # cs) = v # printed cs"
| "printed (c # cs) = printed cs"

text \<open>The number that \<open>to_numpy\<close> gives for a loss; 0 stands in where it raises.\<close>

definition loss_value :: "('a, 'd) library \<Rightarrow> 'a tensor \<Rightarrow> real" where
  "loss_value lib loss = (case to_numpy lib loss of Inl name \<Rightarrow> 0 | Inr v \<Rightarrow> v)"

text \<open>
  Three properties of a statement, for reasoning about the loop body piece by piece: it
  never calls \<^verbatim>\<open>minimize\<close>; it never fails an \<^verbatim>\<open>assert\<close>; when it fails an \<^verbatim>\<open>assert\<close>, it has
  not called \<^verbatim>\<open>minimize\<close>.
\<close>

definition never_minimizes :: "('a, 'd, 'x) action \<Rightarrow> bool" where
  "never_minimizes m \<longleftrightarrow> (\<forall>h. \<exists>d. fst (m h) = h @ d \<and> minimized d = [])"

definition never_asserts :: "('a, 'd, 'x) action \<Rightarrow> bool" where
  "never_asserts m \<longleftrightarrow> (\<forall>h. snd (m h) \<noteq> Inl AssertionError)"


section \<open>A small training run\<close>

text \<open>
  Concrete objects on which the definitions above are evaluated: two trajectories of three
  timesteps with one-dimensional states, and observations and controls that are plain tensors,
  for which a SliceWrapper maps, measures and subscripts the tensor itself.
\<close>

definition demo_states :: "int tensor" where
  "demo_states = \<lparr>storage = [10, 11, 12, 20, 21, 22], storage_offset = 0,
                  dims = [(2, 3), (3, 1), (1, 1)]\<rparr>"

definition demo_batch :: "(int, int tensor) trajectory" where
  "demo_batch = \<lparr>states = demo_states, observations = demo_states, controls = demo_states\<rparr>"

text \<open>A batch whose states have two components where the filter has one.\<close>

definition wide_batch :: "(int, int tensor) trajectory" where
  "wide_batch = demo_batch\<lparr>states :=
     \<lparr>storage = [1, 2, 3, 4], storage_offset = 0, dims = [(2, 1), (1, 2), (2, 1)]\<rparr>\<rparr>"

text \<open>A batch of one trajectory only.\<close>

definition short_states :: "int tensor" where
  "short_states = \<lparr>storage = [30, 31, 32], storage_offset = 0,
                   dims = [(1, 3), (3, 1), (1, 1)]\<rparr>"

definition short_batch :: "(int, int tensor) trajectory" where
  "short_batch = \<lparr>states = short_states, observations = short_states, controls = short_states\<rparr>"

definition demo_covariance :: "int tensor" where
  "demo_covariance = \<lparr>storage = [4], storage_offset = 0, dims = [(1, 1), (1, 1)]\<rparr>"

definition name_of :: "error \<Rightarrow> string" where
  "name_of e = (case e of Raised name \<Rightarrow> name | AssertionError \<Rightarrow> ''AssertionError''
     | IndexError \<Rightarrow> ''IndexError'' | ValueError \<Rightarrow> ''ValueError''
     | RuntimeError \<Rightarrow> ''RuntimeError'' | ZeroDivisionError \<Rightarrow> ''ZeroDivisionError'')"

definition named :: "error + 'x \<Rightarrow> string + 'x" where
  "named r = (case r of Inl e \<Rightarrow> Inl (name_of e) | Inr x \<Rightarrow> Inr x)"

definition demo_library :: "(int, int tensor) library" where
  "demo_library =
     \<lparr>to_device = (\<lambda>batch_data dev. Inr batch_data),
      to_numpy = (\<lambda>t. case storage t of [] \<Rightarrow> Inl ''ValueError'' | x # _ \<Rightarrow> Inr (real_of_int x)),
      slice_wrapper_map = (\<lambda>f t. named (f t)),
      slice_wrapper_shape = (\<lambda>t. Inr (sizes t)),
      slice_wrapper_getitem =
        (\<lambda>t i. case i of At k \<Rightarrow> named (select t k) | From k \<Rightarrow> named (slice_from t k)),
      sample = (\<lambda>h start cov. Inr start)\<rparr>"

text \<open>The filter returns its observations as predictions: they have the shape asked for.\<close>

definition demo_filter :: "(int, int tensor) filter_model" where
  "demo_filter =
     \<lparr>state_dim = 1, training = True, is_virtual_sensor_ekf = False,
      virtual_sensor_initialize_beliefs = (\<lambda>h obs0. Inr ()),
      initialize_beliefs = (\<lambda>h mean cov. Inr ()),
      forward_loop = (\<lambda>h obs1 ctrl1. Inr obs1)\<rparr>"

definition demo_buddy :: "(int, int tensor) buddy" where
  "demo_buddy =
     \<lparr>device = ''cpu'',
      minimize = (\<lambda>h loss name. Inr ()),
      log_scalar = (\<lambda>h scope name loss. Inr ())\<rparr>"

text \<open>The loss of a batch is the number of calls made before it is computed.\<close>

definition demo_loss :: "(int, int tensor) call list \<Rightarrow> int tensor \<Rightarrow> int tensor \<Rightarrow> string + int tensor" where
  "demo_loss h predictions labels =
     Inr \<lparr>storage = [int (length h)], storage_offset = 0, dims = []\<rparr>"

definition demo_dataloader :: "(int, int tensor) dataloader" where
  "demo_dataloader =
     \<lparr>is_subsequence_dataset = True, batch_size = Some 2, batches = [demo_batch, short_batch]\<rparr>"

text \<open>The calls of the first minibatch of the run.\<close>

definition demo_first_trace :: "(int, int tensor) call list" where
  "demo_first_trace =
    [Sample \<lparr>storage = [10, 11, 12, 20, 21, 22], storage_offset = 0, dims = [(2, 3), (1, 1)]\<rparr>
       \<lparr>storage = [4], storage_offset = 0, dims = [(2, 0), (1, 1), (1, 1)]\<rparr>,
     InitializeBeliefs
       \<lparr>storage = [10, 11, 12, 20, 21, 22], storage_offset = 0, dims = [(2, 3), (1, 1)]\<rparr>
       \<lparr>storage = [4], storage_offset = 0, dims = [(2, 0), (1, 1), (1, 1)]\<rparr>,
     ForwardLoop
       \<lparr>storage = [10, 11, 12, 20, 21, 22], storage_offset = 1, dims = [(2, 1), (2, 3), (1, 1)]\<rparr>
       \<lparr>storage = [10, 11, 12, 20, 21, 22], storage_offset = 1, dims = [(2, 1), (2, 3), (1, 1)]\<rparr>,
     LossFunction
       \<lparr>storage = [10, 11, 12, 20, 21, 22], storage_offset = 1, dims = [(2, 1), (2, 3), (1, 1)]\<rparr>
       \<lparr>storage = [10, 11, 12, 20, 21, 22], storage_offset = 1, dims = [(2, 1), (2, 3), (1, 1)]\<rparr>,
     Minimize \<lparr>storage = [3], storage_offset = 0, dims = []\<rparr> ''train_filter_recurrent'',
     LogScalar ''train_filter_recurrent'' ''Training loss''
       \<lparr>storage = [3], storage_offset = 0, dims = []\<rparr>]"

text \<open>The calls of the second minibatch of the run.\<close>

definition demo_second_trace :: "(int, int tensor) call list" where
  "demo_second_trace =
    [Sample \<lparr>storage = [30, 31, 32], storage_offset = 0, dims = [(1, 3), (1, 1)]\<rparr>
       \<lparr>storage = [4], storage_offset = 0, dims = [(1, 1), (1, 1), (1, 1)]\<rparr>,
     InitializeBeliefs
       \<lparr>storage = [30, 31, 32], storage_offset = 0, dims = [(1, 3), (1, 1)]\<rparr>
       \<lparr>storage = [4], storage_offset = 0, dims = [(1, 1), (1, 1), (1, 1)]\<rparr>,
     ForwardLoop
       \<lparr>storage = [30, 31, 32], storage_offset = 1, dims = [(2, 1), (1, 3), (1, 1)]\<rparr>
       \<lparr>storage = [30, 31, 32], storage_offset = 1, dims = [(2, 1), (1, 3), (1, 1)]\<rparr>,
     LossFunction
       \<lparr>storage = [30, 31, 32], storage_offset = 1, dims = [(2, 1), (1, 3), (1, 1)]\<rparr>
       \<lparr>storage = [30, 31, 32], storage_offset = 1, dims = [(2, 1), (1, 3), (1, 1)]\<rparr>,
     Minimize \<lparr>storage = [9], storage_offset = 0, dims = []\<rparr> ''train_filter_recurrent'']"

text \<open>The states of the first batch with the axes swapped, and their first timestep.\<close>

definition demo_swapped :: "int tensor" where
  "demo_swapped = \<lparr>storage = [10, 11, 12, 20, 21, 22], storage_offset = 0,
                   dims = [(3, 1), (2, 3), (1, 1)]\<rparr>"

definition demo_start :: "int tensor" where
  "demo_start = \<lparr>storage = [10, 11, 12, 20, 21, 22], storage_offset = 0,
                 dims = [(2, 3), (1, 1)]\<rparr>"

text \<open>The same filter as a virtual sensor EKF.\<close>

definition demo_virtual_sensor_filter :: "(int, int tensor) filter_model" where
  "demo_virtual_sensor_filter = demo_filter\<lparr>is_virtual_sensor_ekf := True\<rparr>"

text \<open>The second minibatch when it is logged, and the first when it is not.\<close>

definition demo_logged_second_trace :: "(int, int tensor) call list" where
  "demo_logged_second_trace = demo_second_trace
     @ [LogScalar ''train_filter_recurrent'' ''Training loss''
          \<lparr>storage = [9], storage_offset = 0, dims = []\<rparr>]"

definition demo_unlogged_trace :: "(int, int tensor) call list" where
  "demo_unlogged_trace = butlast demo_first_trace"





section \<open>Facts about statements, views and the loop body\<close>

subsection \<open>Statements\<close>

lemma andthen_Inr:
  "andthen m f h = (h', Inr y) \<longleftrightarrow> (\<exists>x hm. m h = (hm, Inr x) \<and> f x hm = (h', Inr y))"
  by (auto simp: andthen_def split: prod.splits sum.splits)

lemma return_Inr [simp]: "return x h = (h', Inr y) \<longleftrightarrow> h' = h \<and> y = x"
  by (auto simp: return_def)

lemma raise_Inr [simp]: "raise e h \<noteq> (h', Inr y)"
  by (simp add: raise_def)

lemma torch_Inr [simp]: "torch r h = (h', Inr y) \<longleftrightarrow> h' = h \<and> r = Inr y"
  by (auto simp: torch_def)

lemma library_call_Inr [simp]: "library_call r h = (h', Inr y) \<longleftrightarrow> h' = h \<and> r = Inr y"
  by (auto simp: library_call_def split: sum.splits)

lemma external_Inr [simp]:
  "external c respond h = (h', Inr y) \<longleftrightarrow> h' = h @ [c] \<and> respond h = Inr y"
  by (auto simp: external_def split: sum.splits)

lemma py_assert_Inr [simp]: "py_assert cond h = (h', Inr u) \<longleftrightarrow> h' = h \<and> cond"
  by (auto simp: py_assert_def return_def raise_def)

lemma unpack3_Inr [simp]: "unpack3 shape h = (h', Inr (a, b, c)) \<longleftrightarrow> h' = h \<and> shape = [a, b, c]"
  by (auto simp: unpack3_def return_def raise_def split: list.splits)

lemma andthen_return: "andthen (return x) f h = f x h"
  by (simp add: andthen_def return_def)

lemma andthen_raise: "andthen (raise e) f h = (h, Inl e)"
  by (simp add: andthen_def raise_def)

lemma andthen_torch:
  "andthen (torch r) f h = (case r of Inl e \<Rightarrow> (h, Inl e) | Inr x \<Rightarrow> f x h)"
  by (simp add: andthen_def torch_def split: sum.splits)

lemma andthen_library_call:
  "andthen (library_call r) f h = (case r of Inl name \<Rightarrow> (h, Inl (Raised name)) | Inr x \<Rightarrow> f x h)"
  by (simp add: andthen_def library_call_def split: sum.splits)

lemma andthen_external:
  "andthen (external c respond) f h =
     (case respond h of Inl name \<Rightarrow> (h @ [c], Inl (Raised name)) | Inr x \<Rightarrow> f x (h @ [c]))"
  by (simp add: andthen_def external_def split: sum.splits)

lemma andthen_py_assert:
  "andthen (py_assert cond) f h = (if cond then f () h else (h, Inl AssertionError))"
  by (simp add: andthen_def py_assert_def return_def raise_def)

lemma andthen_if:
  "andthen (if c then m1 else m2) f h = (if c then andthen m1 f h else andthen m2 f h)"
  by simp


lemmas andthen_simps =
  andthen_return andthen_raise andthen_torch andthen_library_call andthen_external
  andthen_py_assert andthen_if

lemma andthen_unpack3:
  "andthen (unpack3 shape) f h =
     (case shape of [a, b, c] \<Rightarrow> f (a, b, c) h | _ \<Rightarrow> (h, Inl ValueError))"
  by (simp add: unpack3_def andthen_return andthen_raise split: list.splits)

lemma return_apply: "return x h = (h, Inr x)"
  by (simp add: return_def)

lemma raise_apply: "raise e h = (h, Inl e)"
  by (simp add: raise_def)


lemma fst_andthen:
  assumes "\<And>h. fst (m h) = h" and "\<And>x h. fst (f x h) = h"
  shows "fst (andthen m f h) = h"
proof (cases "m h")
  case (Pair h0 r)
  with assms(1) [of h] have "h0 = h" by simp
  with Pair assms(2) show ?thesis
    by (cases r) (simp_all add: andthen_def)
qed

lemma fst_silent [simp]:
  "fst (return x h) = h" "fst (raise e h) = h" "fst (torch r h) = h"
  "fst (library_call s h) = h" "fst (py_assert c h) = h" "fst (unpack3 shape h) = h"
  by (simp_all add: return_def raise_def torch_def library_call_def py_assert_def unpack3_def
      split: list.splits)

subsection \<open>The record of calls\<close>

lemma minimized_append: "minimized (xs @ ys) = minimized xs @ minimized ys"
  by (induction xs rule: minimized.induct) simp_all

lemma logged_append: "logged (xs @ ys) = logged xs @ logged ys"
  by (induction xs rule: logged.induct) simp_all

lemma printed_append: "printed (xs @ ys) = printed xs @ printed ys"
  by (induction xs rule: printed.induct) simp_all

lemma initializations_append:
  "initializations (xs @ ys) = initializations xs @ initializations ys"
  by (induction xs rule: initializations.induct) simp_all

lemma never_minimizes_basic [simp]:
  "never_minimizes (return x)" "never_minimizes (raise e)" "never_minimizes (torch r)"
  "never_minimizes (library_call s)" "never_minimizes (py_assert c)"
  "never_minimizes (unpack3 shape)"
  by (simp_all add: never_minimizes_def return_def raise_def torch_def library_call_def
      py_assert_def unpack3_def split: list.splits)

lemma never_minimizes_external [simp]:
  "minimized [c] = [] \<Longrightarrow> never_minimizes (external c respond)"
  by (simp add: never_minimizes_def external_def)

lemma never_minimizes_andthen [simp]:
  assumes "never_minimizes m" and "\<And>x. never_minimizes (f x)"
  shows "never_minimizes (andthen m f)"
  unfolding never_minimizes_def
proof
  fix h
  from assms(1) obtain d1 where 1: "fst (m h) = h @ d1" "minimized d1 = []"
    unfolding never_minimizes_def by blast
  show "\<exists>d. fst (andthen m f h) = h @ d \<and> minimized d = []"
  proof (cases "snd (m h)")
    case (Inl e)
    with 1 show ?thesis by (cases "m h") (auto simp: andthen_def)
  next
    case (Inr x)
    from assms(2) [of x] obtain d2 where 2: "fst (f x (h @ d1)) = (h @ d1) @ d2" "minimized d2 = []"
      unfolding never_minimizes_def by blast
    from Inr 1 have "andthen m f h = f x (h @ d1)"
      by (cases "m h") (auto simp: andthen_def)
    with 1 2 show ?thesis
      by (intro exI [of _ "d1 @ d2"]) (simp add: minimized_append)
  qed
qed

lemma never_asserts_basic [simp]:
  "never_asserts (return x)" "e \<noteq> AssertionError \<Longrightarrow> never_asserts (raise e)"
  "never_asserts (library_call s)" "never_asserts (external c respond)"
  by (auto simp: never_asserts_def return_def raise_def library_call_def external_def
      split: sum.splits)

lemma never_asserts_andthen [simp]:
  assumes "never_asserts m" and "\<And>x. never_asserts (f x)"
  shows "never_asserts (andthen m f)"
  using assms unfolding never_asserts_def andthen_def
  by (auto split: prod.splits sum.splits) (metis snd_conv)+



subsection \<open>Tensor views\<close>







subsection \<open>The loop body\<close>


lemma fst_shape_checks: "fst (shape_checks lib buddy fm dl idx b h) = h"
  unfolding shape_checks_def
  by (simp add: fst_andthen split: prod.splits)

lemma shape_checks_history:
  "shape_checks lib buddy fm dl idx b h = (h0, r) \<Longrightarrow> h0 = h"
  using fst_shape_checks [of lib buddy fm dl idx b h] by simp

lemma shape_checks_result:
  assumes "to_device lib b (device buddy) = Inr bg"
    and "swap_batch_sequence_axes (states bg) = Inr sl"
    and "slice_wrapper_map lib swap_batch_sequence_axes (observations bg) = Inr obs"
    and "slice_wrapper_map lib swap_batch_sequence_axes (controls bg) = Inr ctrl"
    and "sizes sl = [T, N, sd]"
    and "slice_wrapper_shape lib obs = Inr os"
    and "slice_wrapper_shape lib ctrl = Inr cs"
  shows "shape_checks lib buddy fm dl idx b h =
     (h, if sd = state_dim fm \<and> take 2 os = [T, N] \<and> take 2 cs = [T, N]
            \<and> (idx \<noteq> 0 \<or> Some N = batch_size dl)
         then Inr (sl, obs, ctrl, T, N, sd) else Inl AssertionError)"
  using assms unfolding shape_checks_def
  by (simp add: andthen_simps andthen_unpack3 return_apply)

lemma populate_initial_belief_Inr:
  "populate_initial_belief lib fm ic mi sl obs N sd h = (h', Inr u) \<longleftrightarrow>
     (if mi then
        is_virtual_sensor_ekf fm \<and>
        (\<exists>obs0. slice_wrapper_getitem lib obs (At 0) = Inr obs0
           \<and> virtual_sensor_initialize_beliefs fm h obs0 = Inr ()
           \<and> h' = h @ [VirtualSensorInitializeBeliefs obs0])
      else
        (\<exists>cov1 cov start mean.
             unsqueeze_front ic = Inr cov1 \<and> expand cov1 [N, sd, sd] = Inr cov
           \<and> select sl 0 = Inr start
           \<and> sample lib h start cov = Inr mean
           \<and> initialize_beliefs fm (h @ [Sample start cov]) mean cov = Inr ()
           \<and> h' = h @ [Sample start cov, InitializeBeliefs mean cov]))"
  unfolding populate_initial_belief_def
  by (simp add: andthen_Inr) blast




lemma train_batch_after_shape_checks:
  assumes "shape_checks lib buddy fm dl idx b h = (h1, r)"
  shows "train_batch lib buddy fm dl ic lf li mi opt idx b el h =
     (case r of
        Inl e \<Rightarrow> (h, Inl e)
      | Inr (sl, obs, ctrl, T, N, sd) \<Rightarrow>
          andthen (populate_initial_belief lib fm ic mi sl obs N sd)
            (\<lambda>_. forward_minimize_log lib buddy fm lf li opt idx el sl obs ctrl T N sd) h)"
  using assms shape_checks_history [OF assms] unfolding train_batch_def
  by (auto simp: andthen_def split: sum.splits)

lemma train_batch_Inr:
  assumes "train_batch lib buddy fm dl ic lf li mi opt idx b el h = (h', Inr el')"
  shows "\<exists>sl obs ctrl T N sd h1 obs1 ctrl1 preds labels1 loss lv.
      shape_checks lib buddy fm dl idx b h = (h, Inr (sl, obs, ctrl, T, N, sd))
    \<and> populate_initial_belief lib fm ic mi sl obs N sd h = (h1, Inr ())
    \<and> slice_wrapper_getitem lib obs (From 1) = Inr obs1
    \<and> slice_wrapper_getitem lib ctrl (From 1) = Inr ctrl1
    \<and> forward_loop fm h1 obs1 ctrl1 = Inr preds
    \<and> map int (sizes preds) = [int T - 1, int N, int sd]
    \<and> slice_from sl 1 = Inr labels1
    \<and> lf (h1 @ [ForwardLoop obs1 ctrl1]) preds labels1 = Inr loss
    \<and> minimize buddy (h1 @ [ForwardLoop obs1 ctrl1, LossFunction preds labels1]) loss opt = Inr ()
    \<and> to_numpy lib loss = Inr lv
    \<and> li \<noteq> 0
    \<and> h' = h1 @ [ForwardLoop obs1 ctrl1, LossFunction preds labels1, Minimize loss opt]
              @ (if int idx mod li = 0
                 then [LogScalar ''train_filter_recurrent'' ''Training loss'' loss] else [])
    \<and> el' = el + lv"
  using assms unfolding train_batch_def forward_minimize_log_def
  by (auto simp: andthen_Inr split: if_splits dest!: shape_checks_history)

text \<open>What a minibatch that runs to its end has added to the record.\<close>

lemma train_batch_summary:
  fixes h :: "('a, 'd) call list"
  assumes "train_batch lib buddy fm dl ic lf li mi opt idx b el h = (h', Inr el')"
  shows "\<exists>d loss lv. h' = h @ d \<and> minimized d = [loss] \<and> to_numpy lib loss = Inr lv
           \<and> el' = el + lv \<and> li \<noteq> 0
           \<and> logged d = (if int idx mod li = 0 then [loss] else [])
           \<and> printed d = []"
proof -
  from train_batch_Inr [OF assms] obtain sl obs ctrl T N sd h1 obs1 ctrl1 preds labels1 loss lv
    where pib: "populate_initial_belief lib fm ic mi sl obs N sd h = (h1, Inr ())"
      and lv: "to_numpy lib loss = Inr lv" "el' = el + lv" "li \<noteq> 0"
      and h': "h' = h1 @ [ForwardLoop obs1 ctrl1, LossFunction preds labels1, Minimize loss opt]
              @ (if int idx mod li = 0
                 then [LogScalar ''train_filter_recurrent'' ''Training loss'' loss] else [])"
    by blast
  from pib obtain init where h1: "h1 = h @ init"
    and init: "minimized init = []" "logged init = []" "printed init = []"
    unfolding populate_initial_belief_Inr by (cases mi) auto
  define d where "d = init @ [ForwardLoop obs1 ctrl1, LossFunction preds labels1, Minimize loss opt]
              @ (if int idx mod li = 0
                 then [LogScalar ''train_filter_recurrent'' ''Training loss'' loss] else [])"
  have 1: "h' = h @ d" by (simp add: h' h1 d_def)
  have 2: "minimized d = [loss]" by (simp add: d_def minimized_append init)
  have 3: "logged d = (if int idx mod li = 0 then [loss] else [])"
    by (simp add: d_def logged_append init)
  have 4: "printed d = []" by (simp add: d_def printed_append init)
  from 1 2 3 4 lv show ?thesis by blast
qed

lemma never_minimizes_shape_checks [simp]:
  "never_minimizes (shape_checks lib buddy fm dl idx b)"
  unfolding shape_checks_def by (simp split: prod.splits)

lemma never_minimizes_populate [simp]:
  "never_minimizes (populate_initial_belief lib fm ic mi sl obs N sd)"
  unfolding populate_initial_belief_def by simp


subsection \<open>The loop and the whole function\<close>

lemma train_filter_precondition:
  assumes "\<not> (is_subsequence_dataset dl \<and> sizes ic = [state_dim fm, state_dim fm] \<and> training fm)"
  shows "train_filter lib buddy fm dl ic lf li mi opt h = (h, Inl AssertionError)"
  using assms unfolding train_filter_def by (auto simp: andthen_py_assert)

lemma train_filter_run:
  assumes "is_subsequence_dataset dl" and "sizes ic = [state_dim fm, state_dim fm]"
    and "training fm"
  shows "train_filter lib buddy fm dl ic lf li mi opt h =
     (case epoch_loop (train_batch lib buddy fm dl ic lf li mi opt) 0 (batches dl) 0 h of
        (h1, Inl e) \<Rightarrow> (h1, Inl e)
      | (h1, Inr el) \<Rightarrow>
          if batches dl = [] then (h1, Inl ZeroDivisionError)
          else (h1 @ [Print (el / real (length (batches dl)))], Inr ()))"
  using assms unfolding train_filter_def
  by (simp add: andthen_py_assert)
     (simp add: andthen_def raise_def return_def external_def split: prod.splits sum.splits)

lemma train_filter_Inr:
  assumes "train_filter lib buddy fm dl ic lf li mi opt h = (h', Inr u)"
  shows "is_subsequence_dataset dl \<and> sizes ic = [state_dim fm, state_dim fm] \<and> training fm
     \<and> batches dl \<noteq> []
     \<and> (\<exists>h1 el. epoch_loop (train_batch lib buddy fm dl ic lf li mi opt) 0 (batches dl) 0 h
            = (h1, Inr el)
          \<and> h' = h1 @ [Print (el / real (length (batches dl)))])"
proof -
  have pre: "is_subsequence_dataset dl \<and> sizes ic = [state_dim fm, state_dim fm] \<and> training fm"
    using assms train_filter_precondition [of dl ic fm lib buddy lf li mi opt h] by auto
  with assms show ?thesis
    by (auto simp: train_filter_run split: prod.splits sum.splits if_splits)
qed


lemma epoch_loop_nth:
  assumes "epoch_loop body idx bs el h = (h', Inr el')" and "i < length bs"
  shows "\<exists>hi eli hi' eli'. body (idx + i) (bs ! i) eli hi = (hi', Inr eli')
           \<and> batch_traces body idx bs el h ! i = drop (length hi) hi'"
  using assms
proof (induction bs arbitrary: idx el h i)
  case Nil
  then show ?case by simp
next
  case (Cons b bs)
  from Cons.prems(1) obtain h1 el1 where b: "body idx b el h = (h1, Inr el1)"
    and rest: "epoch_loop body (Suc idx) bs el1 h1 = (h', Inr el')"
    by (auto split: prod.splits sum.splits)
  show ?case
  proof (cases i)
    case 0
    with b show ?thesis by auto
  next
    case (Suc j)
    with Cons.prems(2) have "j < length bs" by simp
    from Cons.IH [OF rest this] Suc b show ?thesis by auto
  qed
qed

lemma length_batch_traces:
  "epoch_loop body idx bs el h = (h', Inr el') \<Longrightarrow>
   length (batch_traces body idx bs el h) = length bs"
  by (induction bs arbitrary: idx el h) (auto split: prod.splits sum.splits)

lemma batch_traces_nth:
  fixes h :: "('a, 'd) call list"
  assumes "epoch_loop (train_batch lib buddy fm dl ic lf li mi opt) idx bs el h = (h', Inr el')"
    and "i < length bs"
  shows "\<exists>loss. minimized (batch_traces (train_batch lib buddy fm dl ic lf li mi opt)
                              idx bs el h ! i) = [loss]
           \<and> li \<noteq> 0
           \<and> logged (batch_traces (train_batch lib buddy fm dl ic lf li mi opt) idx bs el h ! i)
               = (if int (idx + i) mod li = 0 then [loss] else [])"
proof -
  from epoch_loop_nth [OF assms] obtain hi eli hi' eli' where
    b: "train_batch lib buddy fm dl ic lf li mi opt (idx + i) (bs ! i) eli hi = (hi', Inr eli')"
    and t: "batch_traces (train_batch lib buddy fm dl ic lf li mi opt) idx bs el h ! i
              = drop (length hi) hi'"
    by blast
  from train_batch_summary [OF b] obtain d loss where "hi' = hi @ d" "minimized d = [loss]"
    "li \<noteq> 0" "logged d = (if int (idx + i) mod li = 0 then [loss] else [])"
    by blast
  with t show ?thesis by simp
qed

lemma epoch_loop_sum:
  fixes h :: "('a, 'd) call list"
  assumes "epoch_loop (train_batch lib buddy fm dl ic lf li mi opt) idx bs el h = (h', Inr el')"
  shows "\<exists>d. h' = h @ d \<and> length (minimized d) = length bs \<and> printed d = []
           \<and> el' = el + sum_list (map (loss_value lib) (minimized d))
           \<and> d = concat (batch_traces (train_batch lib buddy fm dl ic lf li mi opt) idx bs el h)"
  using assms
proof (induction bs arbitrary: idx el h)
  case Nil
  then show ?case by simp
next
  case (Cons b bs)
  from Cons.prems obtain h1 el1 where
    b: "train_batch lib buddy fm dl ic lf li mi opt idx b el h = (h1, Inr el1)"
    and rest: "epoch_loop (train_batch lib buddy fm dl ic lf li mi opt) (Suc idx) bs el1 h1
                 = (h', Inr el')"
    by (auto split: prod.splits sum.splits)
  from train_batch_summary [OF b] obtain d1 loss lv where 1: "h1 = h @ d1"
    "minimized d1 = [loss]" "to_numpy lib loss = Inr lv" "el1 = el + lv" "printed d1 = []"
    by blast
  from Cons.IH [OF rest] obtain d2 where 2: "h' = h1 @ d2" "length (minimized d2) = length bs"
    "printed d2 = []" "el' = el1 + sum_list (map (loss_value lib) (minimized d2))"
    "d2 = concat (batch_traces (train_batch lib buddy fm dl ic lf li mi opt) (Suc idx) bs el1 h1)"
    by blast
  have "loss_value lib loss = lv" using 1(3) by (simp add: loss_value_def)
  with 1 2 b show ?case
    by (intro exI [of _ "d1 @ d2"]) (simp add: minimized_append printed_append)
qed

subsection \<open>The small training run, evaluated\<close>

lemmas statement_defs =
  andthen_def return_def raise_def torch_def library_call_def external_def py_assert_def
  unpack3_def

lemmas view_defs =
  sizes_def swap_batch_sequence_axes_def select_def slice_from_def unsqueeze_front_def
  expand_def

lemmas demo_defs =
  demo_states_def demo_batch_def wide_batch_def short_states_def short_batch_def demo_covariance_def
  name_of_def named_def demo_library_def demo_filter_def demo_buddy_def demo_loss_def
  demo_dataloader_def demo_first_trace_def demo_swapped_def demo_start_def
  demo_virtual_sensor_filter_def

lemma demo_precondition:
  "is_subsequence_dataset demo_dataloader"
  "sizes demo_covariance = [state_dim demo_filter, state_dim demo_filter]"
  "training demo_filter"
  "batches demo_dataloader = [demo_batch, short_batch]"
  by (simp_all add: demo_defs sizes_def)

lemma demo_swaps:
  "to_device demo_library demo_batch (device demo_buddy) = Inr demo_batch"
  "swap_batch_sequence_axes (states demo_batch) = Inr demo_swapped"
  "slice_wrapper_map demo_library swap_batch_sequence_axes (observations demo_batch)
     = Inr demo_swapped"
  "slice_wrapper_map demo_library swap_batch_sequence_axes (controls demo_batch)
     = Inr demo_swapped"
  "sizes demo_swapped = [3, 2, state_dim demo_filter]"
  "slice_wrapper_shape demo_library demo_swapped = Inr [3, 2, 1]"
  "take 2 [3, 2, 1 :: nat] = [3, 2]"
  by (simp_all add: view_defs demo_defs)



lemma demo_first_batch:
  "train_batch demo_library demo_buddy demo_filter demo_dataloader demo_covariance demo_loss
     10 False ''train_filter_recurrent'' 0 demo_batch 0 [] = (demo_first_trace, Inr 3)"
  by (simp add: train_batch_def shape_checks_def populate_initial_belief_def
      forward_minimize_log_def
      statement_defs view_defs demo_defs)

lemma demo_second_batch:
  "train_batch demo_library demo_buddy demo_filter demo_dataloader demo_covariance demo_loss
     10 False ''train_filter_recurrent'' (Suc 0) short_batch 3 demo_first_trace
   = (demo_first_trace @ demo_second_trace, Inr 12)"
  by (simp add: train_batch_def shape_checks_def populate_initial_belief_def
      forward_minimize_log_def
      statement_defs view_defs demo_defs demo_second_trace_def)

lemma demo_run:
  "train_filter demo_library demo_buddy demo_filter demo_dataloader demo_covariance demo_loss
     10 False ''train_filter_recurrent'' []
   = (demo_first_trace @ demo_second_trace @ [Print 6], Inr ())"
  by (simp add: train_filter_run demo_precondition demo_first_batch demo_second_batch)


lemma demo_first_batch_interval:
  "li \<noteq> 0 \<Longrightarrow> int 0 mod li = 0 \<Longrightarrow>
   train_batch demo_library demo_buddy demo_filter demo_dataloader demo_covariance demo_loss
     li False ''train_filter_recurrent'' 0 demo_batch 0 [] = (demo_first_trace, Inr 3)"
  by (simp add: train_batch_def shape_checks_def populate_initial_belief_def
      forward_minimize_log_def statement_defs view_defs demo_defs)

lemma demo_second_batch_logged:
  "li = 1 \<or> li = - 1 \<Longrightarrow>
   train_batch demo_library demo_buddy demo_filter demo_dataloader demo_covariance demo_loss
     li False ''train_filter_recurrent'' (Suc 0) short_batch 3 demo_first_trace
   = (demo_first_trace @ demo_logged_second_trace, Inr 12)"
  by (auto simp add: train_batch_def shape_checks_def populate_initial_belief_def
      forward_minimize_log_def statement_defs view_defs demo_defs
      demo_second_trace_def demo_logged_second_trace_def)

lemma demo_run_logged:
  "li = 1 \<or> li = - 1 \<Longrightarrow>
   train_filter demo_library demo_buddy demo_filter demo_dataloader demo_covariance demo_loss
     li False ''train_filter_recurrent'' []
   = (demo_first_trace @ demo_logged_second_trace @ [Print 6], Inr ())"
  using demo_first_batch_interval [of li] demo_second_batch_logged [of li]
  by (auto simp add: train_filter_run demo_precondition)

lemma demo_first_batch_zero:
  "train_batch demo_library demo_buddy demo_filter demo_dataloader demo_covariance demo_loss
     0 False ''train_filter_recurrent'' 0 demo_batch 0 []
   = (demo_unlogged_trace, Inl ZeroDivisionError)"
  by (simp add: train_batch_def shape_checks_def populate_initial_belief_def
      forward_minimize_log_def statement_defs view_defs demo_defs demo_unlogged_trace_def)









section \<open>The steps of a minibatch\<close>



section \<open>Assertions\<close>





section \<open>Swapping the batch and sequence axes\<close>

lemma offset_of_swap:
  "offset_of (d1 # d0 # ds) (i1 # i0 # idx) = offset_of (d0 # d1 # ds) (i0 # i1 # idx)"
  by (cases d0; cases d1; cases "offset_of ds idx") auto

text \<open>
  C3. On a tensor of shape \<open>(N, T, ...)\<close>, that is on every tensor with at least two
  dimensions, \<^verbatim>\<open>_swap_batch_sequence_axes\<close> returns a tensor of shape \<open>(T, N, ...)\<close> whose
  element \<open>[t, n, ...]\<close> is the element \<open>[n, t, ...]\<close> of the input (also when the index is
  out of range: both reads fail alike), and applying it to its own result gives the input
  back.
\<close>

theorem swap_batch_sequence_axes_involution:
  assumes "sizes x = N # T # rest"
  shows "\<exists>y. swap_batch_sequence_axes x = Inr y
           \<and> sizes y = T # N # rest
           \<and> (\<forall>n t idx. element y (t # n # idx) = element x (n # t # idx))
           \<and> swap_batch_sequence_axes y = Inr x"
proof -
  from assms obtain d0 d1 ds where d: "dims x = d0 # d1 # ds"
    and s: "fst d0 = N" "fst d1 = T" "map fst ds = rest"
    by (auto simp: sizes_def)
  define y where "y = x\<lparr>dims := d1 # d0 # ds\<rparr>"
  have 1: "swap_batch_sequence_axes x = Inr y"
    by (simp add: swap_batch_sequence_axes_def d y_def)
  have 2: "sizes y = T # N # rest"
    by (simp add: sizes_def y_def s)
  have 3: "element y (t # n # idx) = element x (n # t # idx)" for n t idx
    by (simp add: element_def y_def d offset_of_swap [of d1 d0 ds t n idx] split: option.split)
  have 4: "swap_batch_sequence_axes y = Inr x"
    by (simp add: swap_batch_sequence_axes_def y_def d [symmetric])
  from 1 2 3 4 show ?thesis by blast
qed

theorem swap_batch_sequence_axes_involution_witness:
  "sizes demo_states = [2, 3, 1]
   \<and> (\<exists>y. swap_batch_sequence_axes demo_states = Inr y
          \<and> sizes y = [3, 2, 1]
          \<and> (\<forall>n t idx. element y (t # n # idx) = element demo_states (n # t # idx))
          \<and> swap_batch_sequence_axes y = Inr demo_states)"
proof -
  have s: "sizes demo_states = [2, 3, 1]"
    by (simp add: sizes_def demo_states_def)
  from s swap_batch_sequence_axes_involution [OF s] show ?thesis by simp
qed

section \<open>Shape agreement\<close>





section \<open>The loss of a minibatch\<close>



section \<open>The initial belief\<close>




section \<open>The gradient step is delegated\<close>

text \<open>
  C7. A minibatch that runs to its end calls \<^verbatim>\<open>buddy.minimize\<close> exactly once, with the loss
  that the loss function has just returned and with \<open>optimizer_name\<close>; a run of
  \<^verbatim>\<open>train_filter\<close> that returns has made as many calls of \<^verbatim>\<open>minimize\<close> as the dataloader has
  batches. The record of calls has no other entry for an optimizer or for the parameters of
  the model: \<^verbatim>\<open>train_filter\<close> touches neither.
\<close>

theorem one_minimize_per_batch:
  fixes h h0 :: "('a, 'd) call list"
  shows "(train_batch lib buddy fm dl ic lf li mi opt idx b el h = (h', Inr el') \<longrightarrow>
      (\<exists>before preds labels1 loss after.
          h' = h @ before @ [LossFunction preds labels1, Minimize loss opt] @ after
        \<and> minimized before = [] \<and> minimized after = []
        \<and> lf (h @ before) preds labels1 = Inr loss))
    \<and> (train_filter lib buddy fm dl ic lf li mi opt h0 = (hf, Inr ()) \<longrightarrow>
      (\<exists>d v. hf = h0 @ d @ [Print v] \<and> length (minimized d) = length (batches dl)))"
proof (intro conjI impI)
  assume a: "train_batch lib buddy fm dl ic lf li mi opt idx b el h = (h', Inr el')"
  from train_batch_Inr [OF a] obtain sl obs N sd h1 obs1 ctrl1 preds labels1 loss
    where pib: "populate_initial_belief lib fm ic mi sl obs N sd h = (h1, Inr ())"
      and lo: "lf (h1 @ [ForwardLoop obs1 ctrl1]) preds labels1 = Inr loss"
      and h': "h' = h1 @ [ForwardLoop obs1 ctrl1, LossFunction preds labels1, Minimize loss opt]
              @ (if int idx mod li = 0
                 then [LogScalar ''train_filter_recurrent'' ''Training loss'' loss] else [])"
    by blast
  from pib obtain init where h1: "h1 = h @ init" and init: "minimized init = []"
    unfolding populate_initial_belief_Inr by (cases mi) auto
  define before :: "('a, 'd) call list" where "before = init @ [ForwardLoop obs1 ctrl1]"
  define after :: "('a, 'd) call list" where "after = (if int idx mod li = 0
                 then [LogScalar ''train_filter_recurrent'' ''Training loss'' loss] else [])"
  have 1: "h' = h @ before @ [LossFunction preds labels1, Minimize loss opt] @ after"
    by (simp add: h' h1 before_def after_def)
  have 2: "minimized before = []" by (simp add: before_def minimized_append init)
  have 3: "minimized after = []" by (simp add: after_def)
  have 4: "lf (h @ before) preds labels1 = Inr loss"
    using lo by (simp add: h1 before_def)
  from 1 2 3 4 show "\<exists>before preds labels1 loss after.
          h' = h @ before @ [LossFunction preds labels1, Minimize loss opt] @ after
        \<and> minimized before = [] \<and> minimized after = []
        \<and> lf (h @ before) preds labels1 = Inr loss"
    by blast
next
  assume a: "train_filter lib buddy fm dl ic lf li mi opt h0 = (hf, Inr ())"
  from train_filter_Inr [OF a] obtain h1 el where
    run: "epoch_loop (train_batch lib buddy fm dl ic lf li mi opt) 0 (batches dl) 0 h0
            = (h1, Inr el)"
    and hf: "hf = h1 @ [Print (el / real (length (batches dl)))]"
    by blast
  from epoch_loop_sum [OF run] obtain d where "h1 = h0 @ d"
    "length (minimized d) = length (batches dl)"
    by blast
  with hf show "\<exists>d v. hf = h0 @ d @ [Print v] \<and> length (minimized d) = length (batches dl)"
    by auto
qed

theorem one_minimize_per_batch_witness:
  "train_batch demo_library demo_buddy demo_filter demo_dataloader demo_covariance demo_loss 10 False ''train_filter_recurrent'' 0 demo_batch 0 [] = (demo_first_trace, Inr 3)
   \<and> (\<exists>before preds labels1 loss after.
          demo_first_trace = [] @ before @ [LossFunction preds labels1, Minimize loss ''train_filter_recurrent''] @ after
        \<and> minimized before = [] \<and> minimized after = []
        \<and> demo_loss ([] @ before) preds labels1 = Inr loss)
   \<and> train_filter demo_library demo_buddy demo_filter demo_dataloader demo_covariance demo_loss 10 False ''train_filter_recurrent'' [] = ((demo_first_trace @ demo_second_trace @ [Print 6]), Inr ())
   \<and> (\<exists>d v. (demo_first_trace @ demo_second_trace @ [Print 6]) = [] @ d @ [Print v] \<and> length (minimized d) = length (batches demo_dataloader))"
proof -
  note t = one_minimize_per_batch [where lib = demo_library and buddy = demo_buddy
      and fm = demo_filter and dl = demo_dataloader and ic = demo_covariance and lf = demo_loss
      and li = 10 and mi = False and opt = "''train_filter_recurrent''" and idx = 0
      and b = demo_batch and el = 0 and h = "[]" and h' = demo_first_trace and el' = 3
      and ?h0.0 = "[]" and hf = "demo_first_trace @ demo_second_trace @ [Print 6]"]
  show ?thesis
    by (intro conjI, rule demo_first_batch, rule t [THEN conjunct1, THEN mp, OF demo_first_batch],
        rule demo_run, rule t [THEN conjunct2, THEN mp, OF demo_run])
qed

section \<open>Logging\<close>

text \<open>
  C8, as the claim states it, fails: with \<open>log_interval = 0\<close> the first minibatch is minimised
  and then \<^verbatim>\<open>batch_idx % log_interval\<close> raises ZeroDivisionError, so nothing is logged; and with
  \<open>log_interval = - 1\<close> both minibatches of the run are logged, one index apart.
\<close>

theorem first_batch_not_logged_counterexample:
  "train_filter demo_library demo_buddy demo_filter demo_dataloader demo_covariance demo_loss
     0 False ''train_filter_recurrent'' []
     = (demo_unlogged_trace, Inl ZeroDivisionError)
   \<and> minimized demo_unlogged_trace = [\<lparr>storage = [3], storage_offset = 0, dims = []\<rparr>]
   \<and> logged demo_unlogged_trace = []
   \<and> train_filter demo_library demo_buddy demo_filter demo_dataloader demo_covariance demo_loss
       (- 1) False ''train_filter_recurrent'' []
     = (demo_first_trace @ demo_logged_second_trace @ [Print 6], Inr ())
   \<and> logged demo_first_trace = [\<lparr>storage = [3], storage_offset = 0, dims = []\<rparr>]
   \<and> logged demo_logged_second_trace = [\<lparr>storage = [9], storage_offset = 0, dims = []\<rparr>]
   \<and> int 1 - int 0 \<noteq> - 1"
proof -
  have 1: "train_filter demo_library demo_buddy demo_filter demo_dataloader demo_covariance
     demo_loss 0 False ''train_filter_recurrent'' []
     = (demo_unlogged_trace, Inl ZeroDivisionError)"
    by (simp add: train_filter_run demo_precondition demo_first_batch_zero)
  have 2: "minimized demo_unlogged_trace = [\<lparr>storage = [3], storage_offset = 0, dims = []\<rparr>]"
    "logged demo_unlogged_trace = []"
    "logged demo_first_trace = [\<lparr>storage = [3], storage_offset = 0, dims = []\<rparr>]"
    "logged demo_logged_second_trace = [\<lparr>storage = [9], storage_offset = 0, dims = []\<rparr>]"
    by (simp_all add: demo_unlogged_trace_def demo_first_trace_def demo_second_trace_def
        demo_logged_second_trace_def)
  have 3: "train_filter demo_library demo_buddy demo_filter demo_dataloader demo_covariance
     demo_loss (- 1) False ''train_filter_recurrent'' []
     = (demo_first_trace @ demo_logged_second_trace @ [Print 6], Inr ())"
    by (rule demo_run_logged) simp
  show ?thesis
    by (intro conjI) (fact 1 2 3 | simp)+
qed


text \<open>
  C8, amended. In a run of \<^verbatim>\<open>train_filter\<close> that returns, \<open>log_interval\<close> is not 0, every minibatch
  has minimised one loss, and \<^verbatim>\<open>buddy.log_scalar\<close> has been called in a minibatch exactly when
  \<open>batch_idx mod log_interval = 0\<close>, on the loss minimised there. So the first minibatch is
  logged, and for a positive \<open>log_interval\<close> the indices of two minibatches that are logged,
  with none logged between them, differ by \<open>log_interval\<close>.
\<close>

theorem logging_on_multiples_of_log_interval:
  fixes h :: "('a, 'd) call list"
  assumes "train_filter lib buddy fm dl ic lf li mi opt h = (h', Inr ())"
  shows "\<exists>traces v.
      traces = batch_traces (train_batch lib buddy fm dl ic lf li mi opt) 0 (batches dl) 0 h
    \<and> length traces = length (batches dl)
    \<and> h' = h @ concat traces @ [Print v]
    \<and> li \<noteq> 0
    \<and> (\<forall>i < length (batches dl).
          length (minimized (traces ! i)) = 1
        \<and> logged (traces ! i) = (if int i mod li = 0 then minimized (traces ! i) else []))
    \<and> logged (traces ! 0) \<noteq> []
    \<and> (0 < li \<longrightarrow>
         (\<forall>i j. i < j \<and> j < length (batches dl)
             \<and> logged (traces ! i) \<noteq> [] \<and> logged (traces ! j) \<noteq> []
             \<and> (\<forall>k. i < k \<and> k < j \<longrightarrow> logged (traces ! k) = [])
             \<longrightarrow> int j - int i = li))"
proof -
  define traces where
    "traces = batch_traces (train_batch lib buddy fm dl ic lf li mi opt) 0 (batches dl) 0 h"
  from train_filter_Inr [OF assms] obtain h1 el where
    ne: "batches dl \<noteq> []"
    and run: "epoch_loop (train_batch lib buddy fm dl ic lf li mi opt) 0 (batches dl) 0 h
            = (h1, Inr el)"
    and h': "h' = h1 @ [Print (el / real (length (batches dl)))]"
    by blast
  have len: "length traces = length (batches dl)"
    unfolding traces_def by (rule length_batch_traces [OF run])
  from epoch_loop_sum [OF run] have "h1 = h @ concat traces"
    unfolding traces_def by blast
  with h' have hist: "h' = h @ concat traces @ [Print (el / real (length (batches dl)))]"
    by simp
  have each: "length (minimized (traces ! i)) = 1 \<and> li \<noteq> 0
        \<and> logged (traces ! i) = (if int i mod li = 0 then minimized (traces ! i) else [])"
    if "i < length (batches dl)" for i
    using batch_traces_nth [OF run that] unfolding traces_def by auto
  from ne have pos: "0 < length (batches dl)" by simp
  from each [OF pos] have li: "li \<noteq> 0" and first: "logged (traces ! 0) \<noteq> []"
    by auto
  have logged_iff: "logged (traces ! i) \<noteq> [] \<longleftrightarrow> int i mod li = 0"
    if "i < length (batches dl)" for i
    using each [OF that] by auto
  have spacing: "int j - int i = li"
    if "0 < li" and ij: "i < j" "j < length (batches dl)"
      and l: "logged (traces ! i) \<noteq> []" "logged (traces ! j) \<noteq> []"
      and none: "\<forall>k. i < k \<and> k < j \<longrightarrow> logged (traces ! k) = []"
    for i j
  proof -
    from ij have i: "i < length (batches dl)" by simp
    from l logged_iff [OF i] logged_iff [OF ij(2)]
    have m: "int i mod li = 0" "int j mod li = 0" by auto
    then have "li dvd int j - int i" by (simp add: dvd_diff mod_eq_0_iff_dvd)
    moreover from ij have "0 < int j - int i" by simp
    ultimately have ge: "li \<le> int j - int i" by (rule zdvd_imp_le)
    show ?thesis
    proof (rule ccontr)
      assume "int j - int i \<noteq> li"
      with ge have gt: "li < int j - int i" by simp
      define k where "k = i + nat li"
      from \<open>0 < li\<close> gt have k: "i < k" "k < j" by (simp_all add: k_def)
      from \<open>0 < li\<close> m(1) have km: "int k mod li = 0" by (simp add: k_def)
      from k ij have "k < length (batches dl)" by simp
      from logged_iff [OF this] km have "logged (traces ! k) \<noteq> []" by simp
      moreover from none k have "logged (traces ! k) = []" by simp
      ultimately show False by simp
    qed
  qed
  have all_each: "\<forall>i < length (batches dl).
          length (minimized (traces ! i)) = 1
        \<and> logged (traces ! i) = (if int i mod li = 0 then minimized (traces ! i) else [])"
  proof (intro allI impI)
    fix i assume "i < length (batches dl)"
    from each [OF this]
    show "length (minimized (traces ! i)) = 1
        \<and> logged (traces ! i) = (if int i mod li = 0 then minimized (traces ! i) else [])"
      by (intro conjI) (elim conjE, assumption)+
  qed
  have all_spacing: "0 < li \<longrightarrow>
         (\<forall>i j. i < j \<and> j < length (batches dl)
             \<and> logged (traces ! i) \<noteq> [] \<and> logged (traces ! j) \<noteq> []
             \<and> (\<forall>k. i < k \<and> k < j \<longrightarrow> logged (traces ! k) = [])
             \<longrightarrow> int j - int i = li)"
  proof (intro allI impI, elim conjE)
    fix i j
    assume "0 < li" "i < j" "j < length (batches dl)"
      "logged (traces ! i) \<noteq> []" "logged (traces ! j) \<noteq> []"
      "\<forall>k. i < k \<and> k < j \<longrightarrow> logged (traces ! k) = []"
    then show "int j - int i = li" by (rule spacing)
  qed
  show ?thesis
    apply (rule exI [of _ traces], rule exI [of _ "el / real (length (batches dl))"])
    apply (intro conjI)
    apply (fact traces_def len hist li first all_each all_spacing)+
    done
qed

theorem logging_on_multiples_of_log_interval_witness:
  "train_filter demo_library demo_buddy demo_filter demo_dataloader demo_covariance demo_loss
     1 False ''train_filter_recurrent'' []
     = (demo_first_trace @ demo_logged_second_trace @ [Print 6], Inr ())
   \<and> (\<exists>traces v.
      traces = batch_traces (train_batch demo_library demo_buddy demo_filter demo_dataloader demo_covariance demo_loss 1 False ''train_filter_recurrent'') 0 (batches demo_dataloader) 0 []
    \<and> length traces = length (batches demo_dataloader)
    \<and> (demo_first_trace @ demo_logged_second_trace @ [Print 6]) = [] @ concat traces @ [Print v]
    \<and> (1::int) \<noteq> 0
    \<and> (\<forall>i < length (batches demo_dataloader).
          length (minimized (traces ! i)) = 1
        \<and> logged (traces ! i) = (if int i mod (1::int) = 0 then minimized (traces ! i) else []))
    \<and> logged (traces ! 0) \<noteq> []
    \<and> (0 < (1::int) \<longrightarrow>
         (\<forall>i j. i < j \<and> j < length (batches demo_dataloader)
             \<and> logged (traces ! i) \<noteq> [] \<and> logged (traces ! j) \<noteq> []
             \<and> (\<forall>k. i < k \<and> k < j \<longrightarrow> logged (traces ! k) = [])
             \<longrightarrow> int j - int i = (1::int))))"
proof -
  have run: "train_filter demo_library demo_buddy demo_filter demo_dataloader demo_covariance
     demo_loss 1 False ''train_filter_recurrent'' []
     = (demo_first_trace @ demo_logged_second_trace @ [Print 6], Inr ())"
    by (rule demo_run_logged) simp
  from run logging_on_multiples_of_log_interval [OF run] show ?thesis
    by (rule conjI)
qed

section \<open>The batch size assertion\<close>

text \<open>
  C9. \<^verbatim>\<open>assert batch_idx != 0 or N == dataloader.batch_size\<close> constrains the first minibatch
  only. At index 0, with everything else in order, the shape checks pass exactly when \<open>N\<close> is
  the batch size of the loader, and the body raises AssertionError otherwise. At an index
  greater than 0 neither the shape checks nor the body depend on the batch size of the
  loader at all: a later minibatch of any size is accepted.
\<close>

theorem batch_size_checked_on_first_batch_only:
  fixes h :: "('a, 'd) call list"
  shows "(to_device lib b (device buddy) = Inr bg
        \<and> swap_batch_sequence_axes (states bg) = Inr sl
        \<and> slice_wrapper_map lib swap_batch_sequence_axes (observations bg) = Inr obs
        \<and> slice_wrapper_map lib swap_batch_sequence_axes (controls bg) = Inr ctrl
        \<and> sizes sl = [T, N, state_dim fm]
        \<and> slice_wrapper_shape lib obs = Inr os \<and> take 2 os = [T, N]
        \<and> slice_wrapper_shape lib ctrl = Inr cs \<and> take 2 cs = [T, N] \<longrightarrow>
          shape_checks lib buddy fm dl 0 b h =
            (h, if Some N = batch_size dl then Inr (sl, obs, ctrl, T, N, state_dim fm)
                else Inl AssertionError)
        \<and> (Some N \<noteq> batch_size dl \<longrightarrow>
             train_batch lib buddy fm dl ic lf li mi opt 0 b el h = (h, Inl AssertionError)))
    \<and> (0 < idx \<longrightarrow>
          shape_checks lib buddy fm (dl\<lparr>batch_size := any\<rparr>) idx b h
            = shape_checks lib buddy fm dl idx b h
        \<and> train_batch lib buddy fm (dl\<lparr>batch_size := any\<rparr>) ic lf li mi opt idx b el h
            = train_batch lib buddy fm dl ic lf li mi opt idx b el h)"
proof (intro conjI impI)
  assume a: "to_device lib b (device buddy) = Inr bg
        \<and> swap_batch_sequence_axes (states bg) = Inr sl
        \<and> slice_wrapper_map lib swap_batch_sequence_axes (observations bg) = Inr obs
        \<and> slice_wrapper_map lib swap_batch_sequence_axes (controls bg) = Inr ctrl
        \<and> sizes sl = [T, N, state_dim fm]
        \<and> slice_wrapper_shape lib obs = Inr os \<and> take 2 os = [T, N]
        \<and> slice_wrapper_shape lib ctrl = Inr cs \<and> take 2 cs = [T, N]"
  then have f: "to_device lib b (device buddy) = Inr bg"
    "swap_batch_sequence_axes (states bg) = Inr sl"
    "slice_wrapper_map lib swap_batch_sequence_axes (observations bg) = Inr obs"
    "slice_wrapper_map lib swap_batch_sequence_axes (controls bg) = Inr ctrl"
    "sizes sl = [T, N, state_dim fm]"
    "slice_wrapper_shape lib obs = Inr os"
    "slice_wrapper_shape lib ctrl = Inr cs"
    by simp_all
  note sc = shape_checks_result [OF f, of fm dl 0 h]
  from a sc show 1: "shape_checks lib buddy fm dl 0 b h =
            (h, if Some N = batch_size dl then Inr (sl, obs, ctrl, T, N, state_dim fm)
                else Inl AssertionError)"
    by simp
  assume "Some N \<noteq> batch_size dl"
  with 1 have "shape_checks lib buddy fm dl 0 b h = (h, Inl AssertionError)" by simp
  from train_batch_after_shape_checks [OF this]
  show "train_batch lib buddy fm dl ic lf li mi opt 0 b el h = (h, Inl AssertionError)"
    by simp
next
  assume "0 < idx"
  then show "shape_checks lib buddy fm (dl\<lparr>batch_size := any\<rparr>) idx b h
            = shape_checks lib buddy fm dl idx b h"
    by (simp add: shape_checks_def)
  then show "train_batch lib buddy fm (dl\<lparr>batch_size := any\<rparr>) ic lf li mi opt idx b el h
            = train_batch lib buddy fm dl ic lf li mi opt idx b el h"
    by (simp add: train_batch_def andthen_def)
qed

theorem batch_size_checked_on_first_batch_only_witness:
  "to_device demo_library demo_batch (device demo_buddy) = Inr demo_batch
   \<and> swap_batch_sequence_axes (states demo_batch) = Inr demo_swapped
   \<and> slice_wrapper_map demo_library swap_batch_sequence_axes (observations demo_batch)
       = Inr demo_swapped
   \<and> slice_wrapper_map demo_library swap_batch_sequence_axes (controls demo_batch)
       = Inr demo_swapped
   \<and> sizes demo_swapped = [3, 2, state_dim demo_filter]
   \<and> slice_wrapper_shape demo_library demo_swapped = Inr [3, 2, 1]
   \<and> take 2 [3, 2, 1 :: nat] = [3, 2]
   \<and> Some 2 \<noteq> batch_size (demo_dataloader\<lparr>batch_size := Some 3\<rparr>)
   \<and> train_batch demo_library demo_buddy demo_filter (demo_dataloader\<lparr>batch_size := Some 3\<rparr>)
        demo_covariance demo_loss 10 False ''train_filter_recurrent'' 0 demo_batch 0 []
       = ([], Inl AssertionError)
   \<and> 0 < Suc 0
   \<and> sizes (states short_batch) = [1, 3, 1]
   \<and> batch_size demo_dataloader = Some 2
   \<and> train_batch demo_library demo_buddy demo_filter (demo_dataloader\<lparr>batch_size := None\<rparr>)
        demo_covariance demo_loss 10 False ''train_filter_recurrent'' (Suc 0) short_batch 3
        demo_first_trace
       = (demo_first_trace @ demo_second_trace, Inr 12)"
proof -
  have n: "Some 2 \<noteq> batch_size (demo_dataloader\<lparr>batch_size := Some 3\<rparr>)"
    by simp
  note A = batch_size_checked_on_first_batch_only [where lib = demo_library
      and buddy = demo_buddy and fm = demo_filter and b = demo_batch and bg = demo_batch
      and sl = demo_swapped and obs = demo_swapped and ctrl = demo_swapped and T = 3 and N = 2
      and os = "[3, 2, 1]" and cs = "[3, 2, 1]" and h = "[]"
      and dl = "demo_dataloader\<lparr>batch_size := Some 3\<rparr>" and ic = demo_covariance
      and lf = demo_loss and li = 10 and mi = False and opt = "''train_filter_recurrent''"
      and el = 0, THEN conjunct1]
  from A demo_swaps n have a: "train_batch demo_library demo_buddy demo_filter
        (demo_dataloader\<lparr>batch_size := Some 3\<rparr>)
        demo_covariance demo_loss 10 False ''train_filter_recurrent'' 0 demo_batch 0 []
       = ([], Inl AssertionError)"
    by blast
  note B = batch_size_checked_on_first_batch_only [where lib = demo_library
      and buddy = demo_buddy and fm = demo_filter and b = short_batch and h = demo_first_trace
      and dl = demo_dataloader and ic = demo_covariance and any = None
      and lf = demo_loss and li = 10 and mi = False and opt = "''train_filter_recurrent''"
      and el = 3 and idx = "Suc 0", THEN conjunct2]
  from B demo_second_batch have b: "train_batch demo_library demo_buddy demo_filter
        (demo_dataloader\<lparr>batch_size := None\<rparr>)
        demo_covariance demo_loss 10 False ''train_filter_recurrent'' (Suc 0) short_batch 3
        demo_first_trace
       = (demo_first_trace @ demo_second_trace, Inr 12)"
    by simp
  have c: "0 < Suc 0" "sizes (states short_batch) = [1, 3, 1]"
    "batch_size demo_dataloader = Some 2"
    by (simp_all add: view_defs demo_defs)
  show ?thesis
    by (intro conjI) (fact demo_swaps n a b c)+
qed

section \<open>The epoch loss\<close>




end
